theory Spec2Isabelle
  imports Main
begin

section \<open>The session gate (saveUser, checkUser, setAuthed, requireAuth)\<close>

text \<open>
  The first script keeps two items in the browser's \<^verbatim>\<open>localStorage\<close>:
  \<^verbatim>\<open>users\<close>, a JSON text, and \<^verbatim>\<open>auth_user\<close>, a plain string.
  \<^verbatim>\<open>JSON.parse\<close>, \<^verbatim>\<open>JSON.stringify\<close>, property access on objects and
  \<^verbatim>\<open>localStorage\<close> belong to the platform, so they are modelled from ECMAScript
  and the Web Storage interface; \<^verbatim>\<open>saveUser\<close>, \<^verbatim>\<open>checkUser\<close>,
  \<^verbatim>\<open>setAuthed\<close> and \<^verbatim>\<open>requireAuth\<close> are translated line by line.
\<close>

datatype js_error = SyntaxError | TypeError | InvalidStateError | NotAllowedError

text \<open>The object literal \<^verbatim>\<open>{ email, password }\<close> of \<^verbatim>\<open>saveUser\<close>.\<close>

record credential =
  email :: string
  password :: string

text \<open>
  The object \<^verbatim>\<open>users\<close>: its own properties and its prototype.
  \<^verbatim>\<open>JSON.parse\<close> makes objects whose prototype is \<^verbatim>\<open>Object.prototype\<close>;
  the prototype can only become something else through the \<^verbatim>\<open>__proto__\<close> setter
  (see \<open>set_member\<close>), and then it is a credential record.
\<close>

datatype proto = Object_prototype | Record_prototype credential

record object =
  own :: "string \<Rightarrow> credential option"
  proto :: proto

text \<open>
  What \<^verbatim>\<open>users[email]\<close> and \<^verbatim>\<open>u.password\<close> can evaluate to:
  \<^verbatim>\<open>undefined\<close>, a string, a credential record, or a member that every object
  inherits (\<^verbatim>\<open>Object.prototype\<close> itself or one of its methods), which is truthy
  and has no property \<^verbatim>\<open>password\<close>.
\<close>

datatype js_value = Undefined | Str string | Record credential | Builtin

text \<open>The property names of \<^verbatim>\<open>Object.prototype\<close>.\<close>

definition Object_prototype_keys :: "string list" where
  "Object_prototype_keys =
     [''constructor'', ''__defineGetter__'', ''__defineSetter__'', ''hasOwnProperty'',
      ''__lookupGetter__'', ''__lookupSetter__'', ''isPrototypeOf'',
      ''propertyIsEnumerable'', ''toString'', ''valueOf'', ''__proto__'',
      ''toLocaleString'']"

text \<open>
  \<^verbatim>\<open>obj[key]\<close>: an own property wins; otherwise the prototype chain is searched.
\<close>

definition get_member :: "object \<Rightarrow> string \<Rightarrow> js_value" where
  "get_member obj key =
     (case own obj key of
        Some r \<Rightarrow> Record r
      | None \<Rightarrow>
          (case proto obj of
             Object_prototype \<Rightarrow>
               if key \<in> set Object_prototype_keys then Builtin else Undefined
           | Record_prototype r \<Rightarrow>
               if key = ''email'' then Str (email r)
               else if key = ''password'' then Str (password r)
               else if key = ''__proto__'' then Record r
               else if key \<in> set Object_prototype_keys then Builtin else Undefined))"

text \<open>
  \<^verbatim>\<open>obj[key] = v\<close>: an own property is overwritten. Otherwise the prototype chain
  is searched for a setter, and \<^verbatim>\<open>Object.prototype\<close> has exactly one, for the key
  \<^verbatim>\<open>__proto__\<close>: it replaces the prototype of \<^verbatim>\<open>obj\<close> by \<^verbatim>\<open>v\<close> and
  creates no property. Every other key becomes a new own property.
\<close>

definition set_member :: "object \<Rightarrow> string \<Rightarrow> credential \<Rightarrow> object" where
  "set_member obj key v =
     (case own obj key of
        Some old \<Rightarrow> obj\<lparr>own := (own obj)(key \<mapsto> v)\<rparr>
      | None \<Rightarrow>
          if key = ''__proto__'' then obj\<lparr>proto := Record_prototype v\<rparr>
          else obj\<lparr>own := (own obj)(key \<mapsto> v)\<rparr>)"

text \<open>A JavaScript value in a boolean position (\<^verbatim>\<open>u && ...\<close>, \<^verbatim>\<open>!x\<close>).\<close>

fun truthy :: "js_value \<Rightarrow> bool" where
  "truthy Undefined = False"
| "truthy (Str s) = (s \<noteq> [])"
| "truthy (Record r) = True"
| "truthy Builtin = True"

text \<open>\<^verbatim>\<open>u.password\<close>, for a \<^verbatim>\<open>u\<close> that is not \<^verbatim>\<open>undefined\<close> (reading a
  property of \<^verbatim>\<open>undefined\<close> throws; \<open>checkUser\<close> never does, because \<^verbatim>\<open>&&\<close>
  stops at a falsy \<^verbatim>\<open>u\<close>).\<close>

fun member_password :: "js_value \<Rightarrow> js_value" where
  "member_password (Record r) = Str (password r)"
| "member_password other = Undefined"

text \<open>\<^verbatim>\<open>v === s\<close> for a string \<^verbatim>\<open>s\<close>: true of the same string and of nothing
  else.\<close>

fun equals_string :: "js_value \<Rightarrow> string \<Rightarrow> bool" where
  "equals_string (Str a) s = (a = s)"
| "equals_string other s = False"

text \<open>
  A text stored under \<^verbatim>\<open>users\<close> is represented by what \<^verbatim>\<open>JSON.parse\<close> makes
  of it, which is all the script ever does with it: the empty string, a non-empty text
  that is not valid JSON, or the JSON text of an object of credential records (what
  \<^verbatim>\<open>saveUser\<close> writes). Valid JSON of another shape is not represented.
\<close>

datatype stored_text = Empty_text | Malformed_text | Object_text "string \<Rightarrow> credential option"

record localStorage =
  users_item :: "stored_text option"
  auth_user_item :: "string option"

definition JSON_parse :: "stored_text \<Rightarrow> js_error + object" where
  "JSON_parse t =
     (case t of
        Empty_text \<Rightarrow> Inl SyntaxError
      | Malformed_text \<Rightarrow> Inl SyntaxError
      | Object_text m \<Rightarrow> Inr \<lparr>own = m, proto = Object_prototype\<rparr>)"

text \<open>\<^verbatim>\<open>JSON.stringify\<close> writes the own properties only.\<close>

definition JSON_stringify :: "object \<Rightarrow> stored_text" where
  "JSON_stringify obj = Object_text (own obj)"

text \<open>\<^verbatim>\<open>localStorage.getItem('users') || '{}'\<close>: the default replaces
  \<^verbatim>\<open>null\<close> (no item) and the empty string, the two falsy results.\<close>

definition getItem_users_or_empty :: "localStorage \<Rightarrow> stored_text" where
  "getItem_users_or_empty st =
     (case users_item st of
        None \<Rightarrow> Object_text Map.empty
      | Some Empty_text \<Rightarrow> Object_text Map.empty
      | Some t \<Rightarrow> t)"

text \<open>
  \<^verbatim>\<open>
  function saveUser(email, password){
    const users = JSON.parse(localStorage.getItem('users')||'{}');
    users[email] = { email, password };
    localStorage.setItem('users', JSON.stringify(users));
  }
  \<close>
  A thrown error leaves the storage as it was. The storage is taken to have room for
  what is written: \<^verbatim>\<open>setItem\<close> does not throw.
\<close>

definition saveUser :: "string \<Rightarrow> string \<Rightarrow> localStorage \<Rightarrow> js_error + localStorage" where
  "saveUser email' password' st =
     (case JSON_parse (getItem_users_or_empty st) of
        Inl err \<Rightarrow> Inl err
      | Inr users \<Rightarrow>
          Inr (st\<lparr>users_item :=
                 Some (JSON_stringify
                   (set_member users email' \<lparr>email = email', password = password'\<rparr>))\<rparr>))"

text \<open>
  \<^verbatim>\<open>
  function checkUser(email, password){
    const users = JSON.parse(localStorage.getItem('users')||'{}');
    const u = users[email];
    return !!(u && u.password === password);
  }
  \<close>
\<close>

definition checkUser :: "string \<Rightarrow> string \<Rightarrow> localStorage \<Rightarrow> js_error + bool" where
  "checkUser email' password' st =
     (case JSON_parse (getItem_users_or_empty st) of
        Inl err \<Rightarrow> Inl err
      | Inr users \<Rightarrow>
          (let u = get_member users email'
           in Inr (if truthy u then equals_string (member_password u) password' else False)))"

text \<open>\<^verbatim>\<open>function setAuthed(email){ localStorage.setItem('auth_user', email); }\<close>\<close>

definition setAuthed :: "string \<Rightarrow> localStorage \<Rightarrow> localStorage" where
  "setAuthed email' st = st\<lparr>auth_user_item := Some email'\<rparr>"

text \<open>
  \<^verbatim>\<open>
  function requireAuth(){
    if(!localStorage.getItem('auth_user')){
      location.href = 'login.html';
    }
  }
  \<close>
  The result is the navigation the call asks for, if any. \<^verbatim>\<open>getItem\<close> gives
  \<^verbatim>\<open>null\<close> or the stored string, and \<^verbatim>\<open>!\<close> is true of \<^verbatim>\<open>null\<close> and of
  the empty string.
\<close>

definition requireAuth :: "localStorage \<Rightarrow> string option" where
  "requireAuth st =
     (case auth_user_item st of
        None \<Rightarrow> Some ''login.html''
      | Some marker \<Rightarrow> if marker = [] then Some ''login.html'' else None)"

text \<open>The logout handler: \<^verbatim>\<open>localStorage.removeItem("auth_user")\<close>, then the login page.\<close>

definition logout :: "localStorage \<Rightarrow> localStorage \<times> string" where
  "logout st = (st\<lparr>auth_user_item := None\<rparr>, ''login.html'')"

text \<open>An origin whose storage holds neither item.\<close>

definition fresh_storage :: localStorage where
  "fresh_storage = \<lparr>users_item = None, auth_user_item = None\<rparr>"

text \<open>A sequence of \<^verbatim>\<open>saveUser(email, password)\<close> calls, stopping at the first
  one that throws.\<close>

fun saveUser_all :: "(string \<times> string) list \<Rightarrow> localStorage \<Rightarrow> js_error + localStorage" where
  "saveUser_all [] st = Inr st"
| "saveUser_all ((e, p) # rest) st =
     (case saveUser e p st of Inl err \<Rightarrow> Inl err | Inr st' \<Rightarrow> saveUser_all rest st')"

section \<open>The live detection client\<close>

text \<open>
  The second script is event driven: the browser runs one handler at a time, and a
  handler gives control back at every \<^verbatim>\<open>await\<close> and when it returns. The page is a
  record of the script's variables, of the objects the browser keeps for it (sockets,
  timers, pending callbacks) and of the elements it touches; every handler is a function
  on that record, and an \<^verbatim>\<open>async\<close> handler is one function per stretch between two
  \<^verbatim>\<open>await\<close>s.
\<close>

datatype ready_state = CONNECTING | OPEN | CLOSING | CLOSED

datatype message = Text string | Binary string

text \<open>
  A \<^verbatim>\<open>WebSocket\<close>: its \<^verbatim>\<open>readyState\<close>, the data \<^verbatim>\<open>send()\<close> queued for
  transmission (calls made while OPEN), and the data \<^verbatim>\<open>send()\<close> dropped (calls made
  while CLOSING or CLOSED, which neither throw nor transmit).
\<close>

record socket =
  readyState :: ready_state
  transmitted :: "message list"
  discarded :: "message list"

record media_element =
  src :: string
  hidden :: bool

record anchor =
  href :: string
  download :: string
  display :: string

record button =
  disabled :: bool
  textContent :: string

text \<open>The fields of the form a click on a submit button posts.\<close>

record upload =
  file_name :: string
  color_field :: string
  conf_field :: string

text \<open>The elements of the page that the handlers read and write.\<close>

record panel =
  colorSel_value :: string
  confRange_value :: string
  confVal_textContent :: string
  output_img :: media_element
  outputVideo :: media_element
  plotImg :: media_element
  downloadImage :: anchor
  downloadLink :: anchor
  statsEl_textContent :: string
  statsEl_hidden :: bool
  statsTitle_hidden :: bool
  submitImage :: button
  submitVideo :: button
  imageInput_file :: "string option"
  videoFile_file :: "string option"
  alerts :: "string list"

text \<open>
  The page. \<open>ws\<close> and \<open>sending\<close> are the script's two variables; a socket is named
  by its position in \<open>sockets\<close>, which holds every socket the page has made (a socket
  that \<open>ws\<close> no longer names lives on with its handlers). The next five fields count
  what the browser has pending: \<^verbatim>\<open>setTimeout(connectWS, delay)\<close> calls with their
  delays, \<^verbatim>\<open>requestAnimationFrame(captureLoop)\<close> calls, \<^verbatim>\<open>canvas.toBlob\<close>
  callbacks, \<^verbatim>\<open>await blob.arrayBuffer()\<close> continuations with the blob's bytes, and
  \<^verbatim>\<open>getUserMedia\<close> promises. \<open>uncaught\<close> lists the exceptions that ended a
  handler.
\<close>

record page =
  ws :: "nat option"
  sending :: bool
  sockets :: "socket list"
  timeouts :: "nat list"
  animation_frames :: nat
  encoding :: nat
  reading :: "string list"
  camera_requests :: nat
  uncaught :: "js_error list"
  console :: "string list"
  canvas_size :: "nat \<times> nat"
  video_readyState :: nat
  video_srcObject :: bool
  image_requests :: "upload list"
  video_requests :: "upload list"
  dom :: panel

definition ready_of :: "page \<Rightarrow> nat \<Rightarrow> ready_state option" where
  "ready_of st i = (if i < length (sockets st) then Some (readyState (sockets st ! i)) else None)"

definition update_socket :: "nat \<Rightarrow> (socket \<Rightarrow> socket) \<Rightarrow> page \<Rightarrow> page" where
  "update_socket i f st =
     (if i < length (sockets st) then st\<lparr>sockets := (sockets st)[i := f (sockets st ! i)]\<rparr>
      else st)"

text \<open>
  \<^verbatim>\<open>WebSocket.send(data)\<close> throws \<^verbatim>\<open>InvalidStateError\<close> while the socket is
  CONNECTING, queues the data while it is OPEN, and drops it silently afterwards.
\<close>

definition WebSocket_send :: "nat \<Rightarrow> message \<Rightarrow> page \<Rightarrow> js_error + page" where
  "WebSocket_send i data st =
     (case ready_of st i of
        None \<Rightarrow> Inl TypeError
      | Some CONNECTING \<Rightarrow> Inl InvalidStateError
      | Some OPEN \<Rightarrow> Inr (update_socket i (\<lambda>s. s\<lparr>transmitted := transmitted s @ [data]\<rparr>) st)
      | Some CLOSING \<Rightarrow> Inr (update_socket i (\<lambda>s. s\<lparr>discarded := discarded s @ [data]\<rparr>) st)
      | Some CLOSED \<Rightarrow> Inr (update_socket i (\<lambda>s. s\<lparr>discarded := discarded s @ [data]\<rparr>) st))"

text \<open>\<^verbatim>\<open>ws.send(data)\<close>, on whatever socket the variable \<open>ws\<close> names at the call.\<close>

definition ws_send :: "message \<Rightarrow> page \<Rightarrow> js_error + page" where
  "ws_send data st = (case ws st of None \<Rightarrow> Inl TypeError | Some i \<Rightarrow> WebSocket_send i data st)"

text \<open>\<^verbatim>\<open>ws && ws.readyState === WebSocket.OPEN\<close>\<close>

definition ws_is_open :: "page \<Rightarrow> bool" where
  "ws_is_open st = (case ws st of None \<Rightarrow> False | Some i \<Rightarrow> ready_of st i = Some OPEN)"

text \<open>
  \<^verbatim>\<open>
  function connectWS() {
    ws = new WebSocket(WS_URL);
    ws.binaryType = "arraybuffer";
    ws.onopen = ...; ws.onmessage = ...; ws.onclose = ...;
  }
  \<close>
\<close>

definition connectWS :: "page \<Rightarrow> page" where
  "connectWS st =
     st\<lparr>sockets := sockets st @ [\<lparr>readyState = CONNECTING, transmitted = [], discarded = []\<rparr>],
        ws := Some (length (sockets st))\<rparr>"

text \<open>
  \<^verbatim>\<open>
  ws.onopen = () => {
    ws.send(`color=${colorSel.value}`);
    ws.send(`conf=${confRange.value}`);
  };
  \<close>
  An exception of the first \<^verbatim>\<open>send\<close> ends the handler.
\<close>

definition onopen :: "page \<Rightarrow> page" where
  "onopen st =
     (case ws_send (Text (''color='' @ colorSel_value (dom st))) st of
        Inl err \<Rightarrow> st\<lparr>uncaught := uncaught st @ [err]\<rparr>
      | Inr st1 \<Rightarrow>
          (case ws_send (Text (''conf='' @ confRange_value (dom st1))) st1 of
             Inl err \<Rightarrow> st1\<lparr>uncaught := uncaught st1 @ [err]\<rparr>
           | Inr st2 \<Rightarrow> st2))"

text \<open>
  \<^verbatim>\<open>
  ws.onmessage = (ev) => {
    if (typeof ev.data === "string") {
      if (ev.data.startsWith("ERR:")) console.error(ev.data);
      return;
    }
    const blob = new Blob([ev.data], { type: "image/jpeg" });
    const url = URL.createObjectURL(blob);
    output.src = url;
    output.classList.remove("hidden");
  };
  \<close>
  \<open>url\<close> is the name \<^verbatim>\<open>URL.createObjectURL\<close> gives the blob.
\<close>

definition onmessage :: "message \<Rightarrow> string \<Rightarrow> page \<Rightarrow> page" where
  "onmessage data url st =
     (case data of
        Text s \<Rightarrow> if take 4 s = ''ERR:'' then st\<lparr>console := console st @ [s]\<rparr> else st
      | Binary bytes \<Rightarrow> st\<lparr>dom := (dom st)\<lparr>output_img := \<lparr>src = url, hidden = False\<rparr>\<rparr>\<rparr>)"

text \<open>\<^verbatim>\<open>ws.onclose = () => setTimeout(connectWS, 1000);\<close>\<close>

definition onclose :: "page \<Rightarrow> page" where
  "onclose st = st\<lparr>timeouts := timeouts st @ [1000]\<rparr>"

text \<open>
  \<^verbatim>\<open>
  async function startCamera() {
    const stream = await navigator.mediaDevices.getUserMedia({...});
    video.srcObject = stream;
    video.play();
    requestAnimationFrame(captureLoop);
  }
  \<close>
  up to the \<^verbatim>\<open>await\<close>, and from it on when the promise is fulfilled.
\<close>

definition startCamera :: "page \<Rightarrow> page" where
  "startCamera st = st\<lparr>camera_requests := camera_requests st + 1\<rparr>"

definition startCamera_resume :: "page \<Rightarrow> page" where
  "startCamera_resume st =
     st\<lparr>video_srcObject := True, animation_frames := animation_frames st + 1\<rparr>"

text \<open>
  \<^verbatim>\<open>
  async function captureLoop() {
    if (!sending && ws && ws.readyState === WebSocket.OPEN && video.readyState >= 2) {
      sending = true;
      const w = 640, h = 480;
      canvas.width = w; canvas.height = h;
      const ctx = canvas.getContext("2d");
      ctx.drawImage(video, 0, 0, w, h);
      canvas.toBlob(async (blob) => {...}, "image/jpeg", 0.7);
    }
    requestAnimationFrame(captureLoop);
  }
  \<close>
\<close>

definition captureLoop :: "page \<Rightarrow> page" where
  "captureLoop st =
     (let st1 =
        (if \<not> sending st \<and> ws_is_open st \<and> 2 \<le> video_readyState st
         then st\<lparr>sending := True, canvas_size := (640, 480), encoding := encoding st + 1\<rparr>
         else st)
      in st1\<lparr>animation_frames := animation_frames st1 + 1\<rparr>)"

text \<open>
  \<^verbatim>\<open>
  async (blob) => {
    if (blob && ws && ws.readyState === WebSocket.OPEN) {
      const buf = await blob.arrayBuffer();
      ws.send(buf);
    }
    sending = false;
  }
  \<close>
  up to the \<^verbatim>\<open>await\<close> (\<open>None\<close> is the \<^verbatim>\<open>null\<close> that \<^verbatim>\<open>toBlob\<close> passes
  when encoding fails), and from it on. An exception of \<^verbatim>\<open>ws.send\<close> ends the
  function before \<^verbatim>\<open>sending = false\<close>.
\<close>

definition toBlob_callback :: "string option \<Rightarrow> page \<Rightarrow> page" where
  "toBlob_callback blob st =
     (case blob of
        None \<Rightarrow> st\<lparr>sending := False\<rparr>
      | Some bytes \<Rightarrow>
          if ws_is_open st then st\<lparr>reading := reading st @ [bytes]\<rparr>
          else st\<lparr>sending := False\<rparr>)"

definition toBlob_callback_resume :: "string \<Rightarrow> page \<Rightarrow> page" where
  "toBlob_callback_resume buf st =
     (case ws_send (Binary buf) st of
        Inl err \<Rightarrow> st\<lparr>uncaught := uncaught st @ [err]\<rparr>
      | Inr st1 \<Rightarrow> st1\<lparr>sending := False\<rparr>)"

text \<open>
  \<^verbatim>\<open>
  startBtn.addEventListener("click", async () => {
    if (!ws || ws.readyState !== WebSocket.OPEN) connectWS();
    startCamera();
  });
  \<close>
\<close>

definition startBtn_click :: "page \<Rightarrow> page" where
  "startBtn_click st = startCamera (if ws_is_open st then st else connectWS st)"

text \<open>
  \<^verbatim>\<open>
  colorSel.addEventListener("change", () => {
    if (ws && ws.readyState === WebSocket.OPEN) ws.send(`color=${colorSel.value}`);
  });
  confRange.addEventListener("input", () => {
    confVal.textContent = confRange.value;
    if (ws && ws.readyState === WebSocket.OPEN) ws.send(`conf=${confRange.value}`);
  });
  \<close>
\<close>

definition colorSel_change :: "page \<Rightarrow> page" where
  "colorSel_change st =
     (if ws_is_open st
      then (case ws_send (Text (''color='' @ colorSel_value (dom st))) st of
              Inl err \<Rightarrow> st\<lparr>uncaught := uncaught st @ [err]\<rparr>
            | Inr st1 \<Rightarrow> st1)
      else st)"

definition confRange_input :: "page \<Rightarrow> page" where
  "confRange_input st =
     (let st0 = st\<lparr>dom := (dom st)\<lparr>confVal_textContent := confRange_value (dom st)\<rparr>\<rparr>
      in if ws_is_open st0
         then (case ws_send (Text (''conf='' @ confRange_value (dom st0))) st0 of
                 Inl err \<Rightarrow> st0\<lparr>uncaught := uncaught st0 @ [err]\<rparr>
               | Inr st1 \<Rightarrow> st1)
         else st0)"

subsection \<open>The two upload flows\<close>

text \<open>
  How the \<^verbatim>\<open>await\<close>s in the \<^verbatim>\<open>try\<close> block of a submit handler end: with an
  exception of the given message (\<^verbatim>\<open>fetch\<close> rejects on a transport error; reading
  or using the body throws), with a response whose \<^verbatim>\<open>ok\<close> is false, or with the
  body. Nothing of the page is read or written between the two \<^verbatim>\<open>await\<close>s, so they
  are one step.
\<close>

datatype 'a settled = Rejected string | Not_ok | Fulfilled 'a

text \<open>The fields the video handler reads from the JSON body; \<open>stats_json\<close> is
  \<^verbatim>\<open>JSON.stringify(data.stats, null, 2)\<close>.\<close>

record video_data =
  video_url :: string
  filename :: string
  stats_json :: string
  plot_url :: string

text \<open>\<^verbatim>\<open>const API = (path) => `http://localhost:8000${path}`;\<close>\<close>

definition API :: "string \<Rightarrow> string" where
  "API path = ''http://localhost:8000'' @ path"

definition alert :: "string \<Rightarrow> page \<Rightarrow> page" where
  "alert msg st = st\<lparr>dom := (dom st)\<lparr>alerts := alerts (dom st) @ [msg]\<rparr>\<rparr>"

text \<open>The label \<^verbatim>\<open>"Processing"\<close> followed by U+2026, in UTF-8.\<close>

definition processing_label :: string where
  "processing_label = ''Processing'' @ [CHR 0xE2, CHR 0x80, CHR 0xA6]"

text \<open>
  \<^verbatim>\<open>file.name.replace(/\.[^.]+$/, "")\<close>: the last dot and what follows it are
  removed when at least one character follows it.
\<close>

definition strip_extension :: "string \<Rightarrow> string" where
  "strip_extension name =
     (let tail = takeWhile (\<lambda>c. c \<noteq> CHR ''.'') (rev name)
      in if tail \<noteq> [] \<and> length tail < length name
         then take (length name - length tail - 1) name
         else name)"

text \<open>
  \<^verbatim>\<open>
  submitImage.addEventListener("click", async () => {
    const file = imageInput.files?.[0];
    if (!file) { alert("Choose an image first."); return; }
    submitImage.disabled = true;
    submitImage.textContent = "Processing...";
    try {
      const form = new FormData(); ...
      const res = await fetch(API("/api/process"), { method: "POST", body: form });
      if (!res.ok) throw new Error("Server error");
      const blob = await res.blob();
      const url = URL.createObjectURL(blob);
      output.src = url;
      output.classList.remove("hidden");
      outputVideo.classList.add("hidden");
      downloadImage.href = url;
      const base = file.name.replace(/\.[^.]+$/, "");
      downloadImage.download = base + "_annotated.jpg";
      downloadImage.style.display = "inline-block";
    } catch (err) {
      alert("Failed: " + err.message);
    } finally {
      submitImage.disabled = false;
      submitImage.textContent = "Submit Image";
    }
  });
  \<close>
  up to \<^verbatim>\<open>await fetch\<close>, and from there on.
\<close>

definition submitImage_click :: "page \<Rightarrow> page" where
  "submitImage_click st =
     (case imageInput_file (dom st) of
        None \<Rightarrow> alert ''Choose an image first.'' st
      | Some name \<Rightarrow>
          st\<lparr>image_requests := image_requests st @
                [\<lparr>file_name = name, color_field = colorSel_value (dom st),
                  conf_field = confRange_value (dom st)\<rparr>],
             dom := (dom st)\<lparr>submitImage := \<lparr>disabled = True, textContent = processing_label\<rparr>\<rparr>\<rparr>)"

definition submitImage_settle :: "upload \<Rightarrow> string settled \<Rightarrow> page \<Rightarrow> page" where
  "submitImage_settle req outcome st =
     (let st1 =
        (case outcome of
           Rejected msg \<Rightarrow> alert (''Failed: '' @ msg) st
         | Not_ok \<Rightarrow> alert (''Failed: '' @ ''Server error'') st
         | Fulfilled url \<Rightarrow>
             st\<lparr>dom := (dom st)
                 \<lparr>output_img := \<lparr>src = url, hidden = False\<rparr>,
                  outputVideo := (outputVideo (dom st))\<lparr>hidden := True\<rparr>,
                  downloadImage :=
                    \<lparr>href = url,
                     download = strip_extension (file_name req) @ ''_annotated.jpg'',
                     display = ''inline-block''\<rparr>\<rparr>\<rparr>)
      in st1\<lparr>dom := (dom st1)\<lparr>submitImage := \<lparr>disabled = False, textContent = ''Submit Image''\<rparr>\<rparr>\<rparr>)"

text \<open>
  \<^verbatim>\<open>
  submitVideo.addEventListener("click", async () => {
    const file = videoFile.files?.[0];
    if (!file) { alert("Choose a video first."); return; }
    submitVideo.disabled = true;
    submitVideo.textContent = "Processing...";
    downloadLink.style.display = "none";
    statsEl.classList.add("hidden");
    statsTitle.classList.add("hidden");
    plotImg.classList.add("hidden");
    try {
      const form = new FormData(); ...
      const res = await fetch(API("/api/process_video2"), { method: "POST", body: form });
      if (!res.ok) throw new Error("Server error");
      const data = await res.json();
      const videoURL = API(data.video_url);
      outputVideo.src = videoURL;
      outputVideo.classList.remove("hidden");
      output.classList.add("hidden");
      downloadLink.href = videoURL;
      downloadLink.download = data.filename || "annotated.mp4";
      downloadLink.style.display = "inline-block";
      statsEl.textContent = JSON.stringify(data.stats, null, 2);
      statsEl.classList.remove("hidden");
      statsTitle.classList.remove("hidden");
      const plotURL = API(data.plot_url);
      plotImg.src = plotURL;
      plotImg.classList.remove("hidden");
    } catch (err) {
      alert("Failed to process video: " + err.message);
    } finally {
      submitVideo.disabled = false;
      submitVideo.textContent = "Submit Video";
    }
  });
  \<close>
\<close>

definition submitVideo_click :: "page \<Rightarrow> page" where
  "submitVideo_click st =
     (case videoFile_file (dom st) of
        None \<Rightarrow> alert ''Choose a video first.'' st
      | Some name \<Rightarrow>
          st\<lparr>video_requests := video_requests st @
                [\<lparr>file_name = name, color_field = colorSel_value (dom st),
                  conf_field = confRange_value (dom st)\<rparr>],
             dom := (dom st)
               \<lparr>submitVideo := \<lparr>disabled = True, textContent = processing_label\<rparr>,
                downloadLink := (downloadLink (dom st))\<lparr>display := ''none''\<rparr>,
                statsEl_hidden := True,
                statsTitle_hidden := True,
                plotImg := (plotImg (dom st))\<lparr>hidden := True\<rparr>\<rparr>\<rparr>)"

definition submitVideo_settle :: "upload \<Rightarrow> video_data settled \<Rightarrow> page \<Rightarrow> page" where
  "submitVideo_settle req outcome st =
     (let st1 =
        (case outcome of
           Rejected msg \<Rightarrow> alert (''Failed to process video: '' @ msg) st
         | Not_ok \<Rightarrow> alert (''Failed to process video: '' @ ''Server error'') st
         | Fulfilled data \<Rightarrow>
             st\<lparr>dom := (dom st)
                 \<lparr>outputVideo := \<lparr>src = API (video_url data), hidden = False\<rparr>,
                  output_img := (output_img (dom st))\<lparr>hidden := True\<rparr>,
                  downloadLink :=
                    \<lparr>href = API (video_url data),
                     download = (if filename data = [] then ''annotated.mp4'' else filename data),
                     display = ''inline-block''\<rparr>,
                  statsEl_textContent := stats_json data,
                  statsEl_hidden := False,
                  statsTitle_hidden := False,
                  plotImg := \<lparr>src = API (plot_url data), hidden = False\<rparr>\<rparr>\<rparr>)
      in st1\<lparr>dom := (dom st1)\<lparr>submitVideo := \<lparr>disabled = False, textContent = ''Submit Video''\<rparr>\<rparr>\<rparr>)"

subsection \<open>Events\<close>

text \<open>
  What the browser can do to the page. An event that has nothing to act on (a handshake
  of a socket that is not CONNECTING, a callback that is not pending, a click on a
  disabled button) leaves the page as it is.
\<close>

datatype event =
    StartBtn_click
  | Camera_granted
  | Camera_denied
  | Socket_open nat
  | Socket_closing nat
  | Socket_close nat
  | Socket_message nat message string
  | Timeout
  | Animation_frame
  | Video_loaded nat
  | Blob_encoded "string option"
  | Buffer_read
  | ColorSel_change string
  | ConfRange_input string
  | ImageInput_change "string option"
  | VideoFile_change "string option"
  | SubmitImage_click
  | Image_settled "string settled"
  | SubmitVideo_click
  | Video_settled "video_data settled"

fun step :: "page \<Rightarrow> event \<Rightarrow> page" where
  "step st StartBtn_click = startBtn_click st"
| "step st Camera_granted =
     (if 0 < camera_requests st
      then startCamera_resume (st\<lparr>camera_requests := camera_requests st - 1\<rparr>)
      else st)"
| "step st Camera_denied =
     (if 0 < camera_requests st
      then st\<lparr>camera_requests := camera_requests st - 1,
              uncaught := uncaught st @ [NotAllowedError]\<rparr>
      else st)"
| "step st (Socket_open i) =
     (if ready_of st i = Some CONNECTING
      then onopen (update_socket i (\<lambda>s. s\<lparr>readyState := OPEN\<rparr>) st)
      else st)"
| "step st (Socket_closing i) =
     (if ready_of st i = Some OPEN
      then update_socket i (\<lambda>s. s\<lparr>readyState := CLOSING\<rparr>) st
      else st)"
| "step st (Socket_close i) =
     (case ready_of st i of
        None \<Rightarrow> st
      | Some CLOSED \<Rightarrow> st
      | Some live \<Rightarrow> onclose (update_socket i (\<lambda>s. s\<lparr>readyState := CLOSED\<rparr>) st))"
| "step st (Socket_message i data url) =
     (if ready_of st i = Some OPEN then onmessage data url st else st)"
| "step st Timeout =
     (case timeouts st of [] \<Rightarrow> st | delay # rest \<Rightarrow> connectWS (st\<lparr>timeouts := rest\<rparr>))"
| "step st Animation_frame =
     (if 0 < animation_frames st
      then captureLoop (st\<lparr>animation_frames := animation_frames st - 1\<rparr>)
      else st)"
| "step st (Video_loaded n) = st\<lparr>video_readyState := n\<rparr>"
| "step st (Blob_encoded blob) =
     (if 0 < encoding st then toBlob_callback blob (st\<lparr>encoding := encoding st - 1\<rparr>) else st)"
| "step st Buffer_read =
     (case reading st of
        [] \<Rightarrow> st
      | buf # rest \<Rightarrow> toBlob_callback_resume buf (st\<lparr>reading := rest\<rparr>))"
| "step st (ColorSel_change v) = colorSel_change (st\<lparr>dom := (dom st)\<lparr>colorSel_value := v\<rparr>\<rparr>)"
| "step st (ConfRange_input v) = confRange_input (st\<lparr>dom := (dom st)\<lparr>confRange_value := v\<rparr>\<rparr>)"
| "step st (ImageInput_change f) = st\<lparr>dom := (dom st)\<lparr>imageInput_file := f\<rparr>\<rparr>"
| "step st (VideoFile_change f) = st\<lparr>dom := (dom st)\<lparr>videoFile_file := f\<rparr>\<rparr>"
| "step st SubmitImage_click =
     (if disabled (submitImage (dom st)) then st else submitImage_click st)"
| "step st (Image_settled outcome) =
     (case image_requests st of
        [] \<Rightarrow> st
      | req # rest \<Rightarrow> submitImage_settle req outcome (st\<lparr>image_requests := rest\<rparr>))"
| "step st SubmitVideo_click =
     (if disabled (submitVideo (dom st)) then st else submitVideo_click st)"
| "step st (Video_settled outcome) =
     (case video_requests st of
        [] \<Rightarrow> st
      | req # rest \<Rightarrow> submitVideo_settle req outcome (st\<lparr>video_requests := rest\<rparr>))"

definition run :: "page \<Rightarrow> event list \<Rightarrow> page" where
  "run st evs = foldl step st evs"

text \<open>The page when the script has just been loaded, over the elements \<open>d\<close> of the
  document: \<^verbatim>\<open>let ws; let sending = false;\<close> and nothing pending.\<close>

definition loaded :: "panel \<Rightarrow> page" where
  "loaded d =
     \<lparr>ws = None, sending = False, sockets = [], timeouts = [], animation_frames = 0,
      encoding = 0, reading = [], camera_requests = 0, uncaught = [], console = [],
      canvas_size = (300, 150), video_readyState = 0, video_srcObject = False,
      image_requests = [], video_requests = [], dom = d\<rparr>"

text \<open>The encode-or-send operations in flight: pending \<^verbatim>\<open>toBlob\<close> callbacks and
  pending reads of an encoded blob.\<close>

definition in_flight :: "page \<Rightarrow> nat" where
  "in_flight st = encoding st + length (reading st)"

text \<open>The \<^verbatim>\<open>readyState\<close> of every socket of the page, oldest first.\<close>

definition states :: "page \<Rightarrow> ready_state list" where
  "states st = map readyState (sockets st)"

text \<open>
  The connection attempts the page keeps alive: sockets that are not CLOSED (each will
  run \<^verbatim>\<open>onclose\<close> when it closes) and pending \<^verbatim>\<open>setTimeout(connectWS, 1000)\<close>
  calls (each will make a socket).
\<close>

definition reconnect_chains :: "page \<Rightarrow> nat" where
  "reconnect_chains st = length (filter (\<lambda>r. r \<noteq> CLOSED) (states st)) + length (timeouts st)"

text \<open>A socket that is still connecting has been handed no data.\<close>

definition connecting_silent :: "page \<Rightarrow> bool" where
  "connecting_silent st =
     list_all (\<lambda>s. readyState s \<noteq> CONNECTING \<or> (transmitted s = [] \<and> discarded s = []))
       (sockets st)"

text \<open>The camera frames queued for transmission, over all sockets.\<close>

fun is_frame :: "message \<Rightarrow> bool" where
  "is_frame (Binary bytes) = True"
| "is_frame (Text s) = False"

definition frames_queued :: "page \<Rightarrow> message list" where
  "frames_queued st = concat (map (\<lambda>s. filter is_frame (transmitted s)) (sockets st))"

text \<open>At most one operation is in flight, and while one is the flag is set.\<close>

definition single_flight :: "page \<Rightarrow> bool" where
  "single_flight st = (in_flight st = 0 \<or> (in_flight st = 1 \<and> sending st))"

text \<open>A document to run the page on: red boxes at confidence 0.5, nothing chosen,
  nothing shown.\<close>

definition example_panel :: panel where
  "example_panel =
     \<lparr>colorSel_value = ''red'', confRange_value = ''0.5'', confVal_textContent = ''0.5'',
      output_img = \<lparr>src = [], hidden = True\<rparr>,
      outputVideo = \<lparr>src = [], hidden = True\<rparr>,
      plotImg = \<lparr>src = [], hidden = True\<rparr>,
      downloadImage = \<lparr>href = [], download = [], display = ''none''\<rparr>,
      downloadLink = \<lparr>href = [], download = [], display = ''none''\<rparr>,
      statsEl_textContent = [], statsEl_hidden = True, statsTitle_hidden = True,
      submitImage = \<lparr>disabled = False, textContent = ''Submit Image''\<rparr>,
      submitVideo = \<lparr>disabled = False, textContent = ''Submit Video''\<rparr>,
      imageInput_file = None, videoFile_file = None, alerts = []\<rparr>"

section \<open>Properties of the session gate\<close>

lemma JSON_parse_stringify:
  "JSON_parse (JSON_stringify obj) = Inr \<lparr>own = own obj, proto = Object_prototype\<rparr>"
  by (simp add: JSON_parse_def JSON_stringify_def)

text \<open>
  C2. For every stored credential mapping, email and password, \<open>checkUser\<close> returns
  true if and only if the mapping has a record for that email whose password field is
  the supplied password, and false otherwise; with no item stored there is no record
  and the result is false.
\<close>

theorem checkUser_iff_record:
  "checkUser e p (st\<lparr>users_item := Some (Object_text m)\<rparr>)
     = Inr (\<exists>r. m e = Some r \<and> password r = p)
   \<and> checkUser e p (st\<lparr>users_item := None\<rparr>) = Inr False"
  by (auto simp: checkUser_def getItem_users_or_empty_def JSON_parse_def get_member_def
      split: option.splits)

text \<open>
  C3, as the code has it. \<open>requireAuth\<close> redirects to the login page if and only if
  the session marker is absent or is the empty string, and it asks for no other
  navigation; for every email that is not empty, \<open>requireAuth\<close> does not redirect
  once \<open>setAuthed\<close> has stored it.
\<close>

theorem requireAuth_redirects_iff:
  "(requireAuth st = Some ''login.html'' \<longleftrightarrow>
      auth_user_item st = None \<or> auth_user_item st = Some [])
   \<and> (requireAuth st = None \<or> requireAuth st = Some ''login.html'')
   \<and> (e \<noteq> [] \<longrightarrow> requireAuth (setAuthed e st) = None)"
  by (auto simp: requireAuth_def setAuthed_def split: option.splits)

theorem requireAuth_redirects_iff_witness:
  "requireAuth (setAuthed ''a@x.com'' fresh_storage) = None
   \<and> requireAuth fresh_storage = Some ''login.html''"
  using requireAuth_redirects_iff [of fresh_storage "''a@x.com''"]
    requireAuth_redirects_iff [of "setAuthed ''a@x.com'' fresh_storage" "''a@x.com''"]
  by (simp add: fresh_storage_def)

text \<open>
  C3 as stated fails for the empty email: \<open>setAuthed\<close> stores a marker, the marker is
  present, and \<open>requireAuth\<close> redirects all the same, because the empty string is
  falsy.
\<close>

theorem requireAuth_empty_marker_redirects:
  "auth_user_item (setAuthed [] fresh_storage) = Some []
   \<and> requireAuth (setAuthed [] fresh_storage) = Some ''login.html''"
  by (simp add: requireAuth_def setAuthed_def)

text \<open>
  Registration and authentication: a registered email other than \<^verbatim>\<open>__proto__\<close>
  authenticates with exactly the password of its last registration, registering one
  email leaves the answer for every other email as it was, and a call returns unless
  the stored text is not valid JSON.
\<close>

lemma saveUser_returns:
  "users_item st \<noteq> Some Malformed_text \<Longrightarrow> \<exists>st'. saveUser e p st = Inr st'"
  by (auto simp: saveUser_def getItem_users_or_empty_def JSON_parse_def
      split: option.splits stored_text.splits)

lemma saveUser_then_checkUser:
  assumes "e \<noteq> ''__proto__''" and "saveUser e p st = Inr st'"
  shows "checkUser e q st' = Inr (q = p)"
  using assms
  by (auto simp: saveUser_def checkUser_def getItem_users_or_empty_def JSON_parse_def
      JSON_stringify_def set_member_def get_member_def
      split: option.splits stored_text.splits sum.splits)

lemma saveUser_other_email:
  assumes "e' \<noteq> e" and "saveUser e p st = Inr st'"
  shows "checkUser e' q st' = checkUser e' q st"
  using assms
  by (auto simp: saveUser_def checkUser_def getItem_users_or_empty_def JSON_parse_def
      JSON_stringify_def set_member_def get_member_def
      split: option.splits stored_text.splits sum.splits if_splits)

lemma saveUser_all_unregistered:
  "e \<notin> fst ` set calls \<Longrightarrow> saveUser_all calls st = Inr st' \<Longrightarrow>
     checkUser e q st' = checkUser e q st"
proof (induction calls arbitrary: st)
  case Nil
  then show ?case by simp
next
  case (Cons c calls)
  obtain e1 p1 where c: "c = (e1, p1)" by (cases c)
  from Cons.prems obtain st1 where s1: "saveUser e1 p1 st = Inr st1"
    and rest: "saveUser_all calls st1 = Inr st'"
    by (auto simp: c split: sum.splits)
  from Cons.prems have "e \<noteq> e1" and "e \<notin> fst ` set calls" by (auto simp: c)
  then show ?case
    using Cons.IH [OF _ rest] saveUser_other_email [OF _ s1] by simp
qed

lemma saveUser_all_last_write_wins:
  "''__proto__'' \<notin> fst ` set calls \<Longrightarrow> saveUser_all calls st = Inr st' \<Longrightarrow>
     map_of (rev calls) e = Some p \<Longrightarrow> checkUser e q st' = Inr (q = p)"
proof (induction calls arbitrary: st)
  case Nil
  then show ?case by simp
next
  case (Cons c calls)
  obtain e1 p1 where c: "c = (e1, p1)" by (cases c)
  from Cons.prems obtain st1 where s1: "saveUser e1 p1 st = Inr st1"
    and rest: "saveUser_all calls st1 = Inr st'"
    by (auto simp: c split: sum.splits)
  from Cons.prems have np: "''__proto__'' \<notin> fst ` set calls" and ne: "e1 \<noteq> ''__proto__''"
    by (auto simp: c)
  show ?case
  proof (cases "map_of (rev calls) e")
    case (Some p')
    with Cons.prems have "p' = p" by (simp add: c)
    with Some Cons.IH [OF np rest] show ?thesis by simp
  next
    case None
    then have notin: "e \<notin> fst ` set calls"
      by (metis map_of_eq_None_iff set_rev)
    from None Cons.prems have "e = e1" and "p = p1"
      by (auto simp: c split: if_splits)
    then show ?thesis
      using saveUser_all_unregistered [OF notin rest] saveUser_then_checkUser [OF ne s1]
      by simp
  qed
qed

text \<open>
  C5 says that every email authenticates with the password it was last registered
  with. The email \<^verbatim>\<open>__proto__\<close> does not: on an object that has no own property
  of that name, \<^verbatim>\<open>users["__proto__"] = {...}\<close> runs the setter of
  \<^verbatim>\<open>Object.prototype\<close>, which replaces the prototype and stores nothing, so the
  text written back is \<^verbatim>\<open>{}\<close> and \<open>checkUser\<close> answers false for the
  password just registered.
\<close>

theorem saveUser_proto_not_authenticable:
  "saveUser ''__proto__'' ''pw'' fresh_storage
     = Inr \<lparr>users_item = Some (Object_text Map.empty), auth_user_item = None\<rparr>
   \<and> checkUser ''__proto__'' ''pw''
       \<lparr>users_item = Some (Object_text Map.empty), auth_user_item = None\<rparr> = Inr False"
  by (simp add: saveUser_def checkUser_def getItem_users_or_empty_def JSON_parse_def
      JSON_stringify_def set_member_def get_member_def fresh_storage_def
      Object_prototype_keys_def)

text \<open>
  C10. There is a stored text under \<^verbatim>\<open>users\<close> that is not valid JSON and for which
  both \<open>saveUser\<close> and \<open>checkUser\<close> end with the \<^verbatim>\<open>SyntaxError\<close> of
  \<^verbatim>\<open>JSON.parse\<close>, whatever the rest of the storage and the arguments: nothing
  catches the error and no empty mapping takes the place of the text.
\<close>

theorem malformed_users_item_raises:
  "\<exists>t. JSON_parse t = Inl SyntaxError
     \<and> (\<forall>st e p. saveUser e p (st\<lparr>users_item := Some t\<rparr>) = Inl SyntaxError
                \<and> checkUser e p (st\<lparr>users_item := Some t\<rparr>) = Inl SyntaxError)"
  by (rule exI [of _ Malformed_text])
    (simp add: saveUser_def checkUser_def getItem_users_or_empty_def JSON_parse_def)

text \<open>The empty string is not valid JSON either, but it never reaches
  \<^verbatim>\<open>JSON.parse\<close>: it is falsy, and \<^verbatim>\<open>'{}'\<close> is parsed in its place.\<close>

lemma empty_users_item_defaults:
  "saveUser e p (st\<lparr>users_item := Some Empty_text\<rparr>) = saveUser e p (st\<lparr>users_item := None\<rparr>)
   \<and> checkUser e p (st\<lparr>users_item := Some Empty_text\<rparr>) = Inr False"
  by (simp add: saveUser_def checkUser_def getItem_users_or_empty_def JSON_parse_def
      get_member_def)

section \<open>Properties of the live detection client\<close>

lemmas handler_defs =
  run_def loaded_def startBtn_click_def startCamera_def startCamera_resume_def connectWS_def
  onopen_def onclose_def captureLoop_def toBlob_callback_def toBlob_callback_resume_def
  ws_send_def WebSocket_send_def ws_is_open_def ready_of_def update_socket_def in_flight_def

lemma run_Cons: "run st (ev # evs) = run (step st ev) evs"
  by (simp add: run_def)

subsection \<open>The frame loop\<close>

text \<open>
  A call of \<^verbatim>\<open>ws.send\<close> changes the sockets and nothing else, so no handler but
  \<open>captureLoop\<close> and the \<^verbatim>\<open>toBlob\<close> callback touches the flag or the pending
  operations.
\<close>

lemma WebSocket_send_frame:
  "WebSocket_send i m st = Inr st' \<Longrightarrow> st' = st\<lparr>sockets := sockets st'\<rparr>"
  by (auto simp: WebSocket_send_def update_socket_def split: option.splits ready_state.splits)

lemma ws_send_frame: "ws_send m st = Inr st' \<Longrightarrow> st' = st\<lparr>sockets := sockets st'\<rparr>"
  by (auto simp: ws_send_def split: option.splits dest: WebSocket_send_frame)

lemma ws_send_in_flight:
  assumes "ws_send m st = Inr st'"
  shows "encoding st' = encoding st \<and> reading st' = reading st \<and> sending st' = sending st"
proof -
  from ws_send_frame [OF assms] obtain ss where "st' = st\<lparr>sockets := ss\<rparr>" by blast
  then show ?thesis by simp
qed

lemma onopen_in_flight:
  "encoding (onopen st) = encoding st \<and> reading (onopen st) = reading st
   \<and> sending (onopen st) = sending st"
  by (auto simp: onopen_def split: sum.splits dest!: ws_send_in_flight)

lemma colorSel_change_in_flight:
  "encoding (colorSel_change st) = encoding st \<and> reading (colorSel_change st) = reading st
   \<and> sending (colorSel_change st) = sending st"
  by (auto simp: colorSel_change_def split: sum.splits dest!: ws_send_in_flight)

lemma confRange_input_in_flight:
  "encoding (confRange_input st) = encoding st \<and> reading (confRange_input st) = reading st
   \<and> sending (confRange_input st) = sending st"
  by (auto simp: confRange_input_def Let_def split: sum.splits dest!: ws_send_in_flight)

lemma step_single_flight: "single_flight st \<Longrightarrow> single_flight (step st ev)"
proof (cases ev)
  case StartBtn_click
  assume "single_flight st"
  then show ?thesis
    by (auto simp: StartBtn_click single_flight_def in_flight_def startBtn_click_def
        startCamera_def connectWS_def)
next
  case (Socket_open i)
  assume "single_flight st"
  then show ?thesis
    by (simp add: Socket_open single_flight_def in_flight_def onopen_in_flight
        update_socket_def)
next
  case (Socket_close i)
  assume "single_flight st"
  then show ?thesis
    by (auto simp: Socket_close single_flight_def in_flight_def onclose_def update_socket_def
        split: option.splits ready_state.splits)
next
  case Animation_frame
  assume "single_flight st"
  then show ?thesis
    by (auto simp: Animation_frame single_flight_def in_flight_def captureLoop_def Let_def)
next
  case (Blob_encoded blob)
  assume "single_flight st"
  then show ?thesis
    by (cases "reading st")
      (auto simp: Blob_encoded single_flight_def in_flight_def toBlob_callback_def
        split: option.splits)
next
  case Buffer_read
  assume "single_flight st"
  then show ?thesis
    by (auto simp: Buffer_read single_flight_def in_flight_def toBlob_callback_resume_def
        split: list.splits sum.splits dest!: ws_send_in_flight)
next
  case (ColorSel_change v)
  assume "single_flight st"
  then show ?thesis
    by (simp add: ColorSel_change single_flight_def in_flight_def colorSel_change_in_flight)
next
  case (ConfRange_input v)
  assume "single_flight st"
  then show ?thesis
    by (simp add: ConfRange_input single_flight_def in_flight_def confRange_input_in_flight)
next
  case (Image_settled outcome)
  assume "single_flight st"
  then show ?thesis
    by (auto simp: Image_settled single_flight_def in_flight_def submitImage_settle_def
        alert_def Let_def split: list.splits settled.splits)
next
  case (Video_settled outcome)
  assume "single_flight st"
  then show ?thesis
    by (auto simp: Video_settled single_flight_def in_flight_def submitVideo_settle_def
        alert_def Let_def split: list.splits settled.splits)
qed (auto simp: single_flight_def in_flight_def startCamera_resume_def update_socket_def
    onmessage_def connectWS_def submitImage_click_def submitVideo_click_def alert_def
    split: message.splits list.splits option.splits)

text \<open>
  On every run of the page, whatever the events, at most one encode-or-send operation
  is in flight, and the flag is set while one is.
\<close>

lemma run_single_flight: "single_flight st \<Longrightarrow> single_flight (run st evs)"
  unfolding run_def by (induction evs arbitrary: st) (simp_all add: step_single_flight)

lemma in_flight_at_most_one: "in_flight (run (loaded d) evs) \<le> 1"
proof -
  have "single_flight (loaded d)" by (simp add: single_flight_def in_flight_def loaded_def)
  then have "single_flight (run (loaded d) evs)" by (rule run_single_flight)
  then show ?thesis by (auto simp: single_flight_def)
qed


text \<open>A tick while the flag is set starts nothing and changes nothing: the frame
  request it consumes is the one it makes. A tick with the flag clear, the socket open
  and the camera ready sets the flag and starts exactly one encode.\<close>

lemma tick_while_sending:
  "sending st \<Longrightarrow> 0 < animation_frames st \<Longrightarrow> step st Animation_frame = st"
  by (simp add: captureLoop_def)

lemma tick_starts_one_encode:
  "\<not> sending st \<Longrightarrow> ws_is_open st \<Longrightarrow> 2 \<le> video_readyState st \<Longrightarrow>
   0 < animation_frames st \<Longrightarrow>
     step st Animation_frame =
       st\<lparr>sending := True, canvas_size := (640, 480), encoding := encoding st + 1\<rparr>"
  by (auto simp: captureLoop_def ws_is_open_def ready_of_def split: option.splits if_splits)

text \<open>
  When encoding ends without a blob, or with the socket not open, nothing is sent and
  the flag is cleared; otherwise the blob is read, and the flag stays set.
\<close>

lemma encode_done_guard_fails:
  "0 < encoding st \<Longrightarrow> blob = None \<or> \<not> ws_is_open st \<Longrightarrow>
     step st (Blob_encoded blob) = st\<lparr>encoding := encoding st - 1, sending := False\<rparr>"
  by (auto simp: toBlob_callback_def ws_is_open_def ready_of_def split: option.splits)

lemma encode_done_guard_passes:
  "0 < encoding st \<Longrightarrow> ws_is_open st \<Longrightarrow>
     step st (Blob_encoded (Some bytes)) =
       st\<lparr>encoding := encoding st - 1, reading := reading st @ [bytes]\<rparr>"
  by (auto simp: toBlob_callback_def ws_is_open_def ready_of_def split: option.splits)

text \<open>
  When the blob has been read, \<^verbatim>\<open>ws.send(buf)\<close> runs on the socket \<open>ws\<close> names
  by then, with no second look at its state: an open socket queues the frame and the
  flag is cleared; a closing or closed one drops it and the flag is cleared; a
  connecting one throws, and the flag stays set.
\<close>

lemma buffer_read_open:
  "reading st = buf # rest \<Longrightarrow> ws st = Some i \<Longrightarrow> ready_of st i = Some OPEN \<Longrightarrow>
     step st Buffer_read =
       update_socket i (\<lambda>s. s\<lparr>transmitted := transmitted s @ [Binary buf]\<rparr>)
         (st\<lparr>reading := rest, sending := False\<rparr>)"
  by (auto simp: toBlob_callback_resume_def ws_send_def WebSocket_send_def ready_of_def
      update_socket_def split: if_splits)

lemma buffer_read_closed:
  "reading st = buf # rest \<Longrightarrow> ws st = Some i \<Longrightarrow> ready_of st i = Some CLOSED \<Longrightarrow>
     step st Buffer_read =
       update_socket i (\<lambda>s. s\<lparr>discarded := discarded s @ [Binary buf]\<rparr>)
         (st\<lparr>reading := rest, sending := False\<rparr>)"
  by (auto simp: toBlob_callback_resume_def ws_send_def WebSocket_send_def ready_of_def
      update_socket_def split: if_splits)

lemma buffer_read_connecting:
  "reading st = buf # rest \<Longrightarrow> ws st = Some i \<Longrightarrow> ready_of st i = Some CONNECTING \<Longrightarrow>
     step st Buffer_read = st\<lparr>reading := rest, uncaught := uncaught st @ [InvalidStateError]\<rparr>"
  by (auto simp: toBlob_callback_resume_def ws_send_def WebSocket_send_def ready_of_def
      split: if_splits)

lemma frames_queued_fields [simp]:
  "frames_queued (st\<lparr>uncaught := u\<rparr>) = frames_queued st"
  "frames_queued (st\<lparr>sending := b\<rparr>) = frames_queued st"
  "frames_queued (st\<lparr>reading := r\<rparr>) = frames_queued st"
  "frames_queued (st\<lparr>dom := d\<rparr>) = frames_queued st"
  "frames_queued (st\<lparr>timeouts := t\<rparr>) = frames_queued st"
  "frames_queued (st\<lparr>encoding := n\<rparr>) = frames_queued st"
  "frames_queued (st\<lparr>animation_frames := n\<rparr>) = frames_queued st"
  "frames_queued (st\<lparr>camera_requests := n\<rparr>) = frames_queued st"
  by (simp_all add: frames_queued_def)

lemma map_update_same: "i < length xs \<Longrightarrow> f y = f (xs ! i) \<Longrightarrow> map f (xs[i := y]) = map f xs"
  by (simp add: map_update list_update_same_conv)

lemma update_socket_frames:
  "(i < length (sockets st) \<Longrightarrow>
      filter is_frame (transmitted (f (sockets st ! i)))
        = filter is_frame (transmitted (sockets st ! i))) \<Longrightarrow>
     frames_queued (update_socket i f st) = frames_queued st"
  by (simp add: frames_queued_def update_socket_def map_update_same)

lemma WebSocket_send_text_frames:
  "WebSocket_send i (Text s) st = Inr st' \<Longrightarrow> frames_queued st' = frames_queued st"
  by (auto simp: WebSocket_send_def update_socket_frames split: option.splits ready_state.splits)

lemma ws_send_text_frames:
  "ws_send (Text s) st = Inr st' \<Longrightarrow> frames_queued st' = frames_queued st"
  by (auto simp: ws_send_def split: option.splits dest: WebSocket_send_text_frames)

lemma onopen_frames: "frames_queued (onopen st) = frames_queued st"
  by (auto simp: onopen_def split: sum.splits dest!: ws_send_text_frames)

lemma colorSel_change_frames: "frames_queued (colorSel_change st) = frames_queued st"
  by (auto simp: colorSel_change_def split: sum.splits dest!: ws_send_text_frames)

lemma confRange_input_frames: "frames_queued (confRange_input st) = frames_queued st"
  by (auto simp: confRange_input_def Let_def split: sum.splits dest!: ws_send_text_frames)

text \<open>
  No event but the end of a blob read queues a camera frame on any socket, and a blob
  is read only after the guard of the \<^verbatim>\<open>toBlob\<close> callback has passed.
\<close>

lemma frames_only_after_read:
  "ev \<noteq> Buffer_read \<Longrightarrow> frames_queued (step st ev) = frames_queued st"
proof (cases ev)
  case StartBtn_click
  then show ?thesis
    by (simp add: frames_queued_def startBtn_click_def startCamera_def connectWS_def)
next
  case (Socket_open i)
  then show ?thesis by (simp add: onopen_frames update_socket_frames)
next
  case (Socket_closing i)
  then show ?thesis by (simp add: update_socket_frames)
next
  case (Socket_close i)
  then show ?thesis
    by (simp add: onclose_def update_socket_frames split: option.splits ready_state.splits)
next
  case Timeout
  then show ?thesis by (simp add: frames_queued_def connectWS_def split: list.splits)
next
  case Buffer_read
  assume "ev \<noteq> Buffer_read"
  with Buffer_read show ?thesis by simp
next
  case (ColorSel_change v)
  then show ?thesis by (simp add: colorSel_change_frames)
next
  case (ConfRange_input v)
  then show ?thesis by (simp add: confRange_input_frames)
qed (auto simp: frames_queued_def startCamera_resume_def onmessage_def captureLoop_def
    toBlob_callback_def submitImage_click_def submitVideo_click_def submitImage_settle_def
    submitVideo_settle_def alert_def Let_def
    split: message.splits list.splits option.splits settled.splits)

text \<open>
  C1 says that the flag is cleared unconditionally once the send attempt resolves. It
  is not when the attempt throws. On this run the camera is started, a frame is
  encoded while socket 0 is open, and the blob is being read when socket 0 closes and
  a second click on the start control makes socket 1; \<^verbatim>\<open>ws.send\<close> then runs on
  socket 1, which is still CONNECTING, and throws. Nothing is in flight any more and
  the flag is still set, so no later tick captures a frame, not even once socket 1 is
  open. The same happens without the click when the reconnect timer fires while the
  blob is being read.
\<close>

theorem captureLoop_flag_left_set:
  "sending (run (loaded d)
      [StartBtn_click, Socket_open 0, Camera_granted, Video_loaded 4, Animation_frame,
       Blob_encoded (Some frame), Socket_close 0, StartBtn_click, Buffer_read])
   \<and> in_flight (run (loaded d)
      [StartBtn_click, Socket_open 0, Camera_granted, Video_loaded 4, Animation_frame,
       Blob_encoded (Some frame), Socket_close 0, StartBtn_click, Buffer_read]) = 0
   \<and> uncaught (run (loaded d)
      [StartBtn_click, Socket_open 0, Camera_granted, Video_loaded 4, Animation_frame,
       Blob_encoded (Some frame), Socket_close 0, StartBtn_click, Buffer_read])
       = [InvalidStateError]
   \<and> in_flight (run (loaded d)
      [StartBtn_click, Socket_open 0, Camera_granted, Video_loaded 4, Animation_frame,
       Blob_encoded (Some frame), Socket_close 0, StartBtn_click, Buffer_read,
       Socket_open 1, Animation_frame, Animation_frame]) = 0
   \<and> sending (run (loaded d)
      [StartBtn_click, Socket_open 0, Camera_granted, Video_loaded 4, Animation_frame,
       Blob_encoded (Some frame), Socket_close 0, Timeout, Buffer_read])
   \<and> in_flight (run (loaded d)
      [StartBtn_click, Socket_open 0, Camera_granted, Video_loaded 4, Animation_frame,
       Blob_encoded (Some frame), Socket_close 0, Timeout, Buffer_read]) = 0"
  by (simp add: handler_defs)

text \<open>
  C8 says that the send path never operates on a closed socket. The guard looks at the
  socket when encoding ends, and \<^verbatim>\<open>ws.send\<close> runs one \<^verbatim>\<open>await\<close> later: on
  this run socket 0 closes while the blob is being read, and the frame is then handed
  to the closed socket, which drops it.
\<close>

theorem frame_sent_on_closed_socket:
  "states (run (loaded d)
      [StartBtn_click, Socket_open 0, Camera_granted, Video_loaded 4, Animation_frame,
       Blob_encoded (Some frame), Socket_close 0]) = [CLOSED]
   \<and> reading (run (loaded d)
      [StartBtn_click, Socket_open 0, Camera_granted, Video_loaded 4, Animation_frame,
       Blob_encoded (Some frame), Socket_close 0]) = [frame]
   \<and> map discarded (sockets (run (loaded d)
      [StartBtn_click, Socket_open 0, Camera_granted, Video_loaded 4, Animation_frame,
       Blob_encoded (Some frame), Socket_close 0, Buffer_read])) = [[Binary frame]]"
  by (simp add: handler_defs states_def)

subsection \<open>Connecting and reconnecting\<close>

text \<open>Every close of a socket schedules exactly one \<^verbatim>\<open>connectWS\<close>, with a delay of
  1000 milliseconds, and a socket closes once.\<close>

lemma socket_close_schedules_one:
  "ready_of st i = Some r \<Longrightarrow> r \<noteq> CLOSED \<Longrightarrow>
     timeouts (step st (Socket_close i)) = timeouts st @ [1000]"
  by (cases r) (auto simp: onclose_def update_socket_def)

lemma socket_close_once: "ready_of st i = Some CLOSED \<Longrightarrow> step st (Socket_close i) = st"
  by simp

text \<open>
  The connection attempts kept alive are counted by \<open>reconnect_chains\<close>. No event
  but a click on the start control changes their number: a close turns a socket into a
  timer and a timer into a socket. A click adds one whenever \<open>ws\<close> is not open,
  also while the socket is still connecting or a reconnect is already scheduled.
\<close>

lemma length_states [simp]: "length (states st) = length (sockets st)"
  by (simp add: states_def)

lemma filter_update_same:
  "i < length xs \<Longrightarrow> P (xs ! i) = P y \<Longrightarrow> length (filter P (xs[i := y])) = length (filter P xs)"
proof (induction xs arbitrary: i)
  case Nil
  then show ?case by simp
next
  case (Cons x xs)
  then show ?case by (cases i) auto
qed

lemma filter_update_drop:
  "i < length xs \<Longrightarrow> P (xs ! i) \<Longrightarrow> \<not> P y \<Longrightarrow>
     Suc (length (filter P (xs[i := y]))) = length (filter P xs)"
proof (induction xs arbitrary: i)
  case Nil
  then show ?case by simp
next
  case (Cons x xs)
  then show ?case by (cases i) auto
qed

lemma states_update_socket:
  "states (update_socket i f st) =
     (if i < length (sockets st) then (states st)[i := readyState (f (sockets st ! i))]
      else states st)"
  by (simp add: states_def update_socket_def map_update)

lemma timeouts_update_socket: "timeouts (update_socket i f st) = timeouts st"
  by (simp add: update_socket_def)

lemma states_update_socket_same:
  "readyState (f (sockets st ! i)) = readyState (sockets st ! i) \<Longrightarrow>
     states (update_socket i f st) = states st"
  by (auto simp: states_def update_socket_def list_eq_iff_nth_eq nth_list_update)

lemma WebSocket_send_chains:
  "WebSocket_send i m st = Inr st' \<Longrightarrow> states st' = states st \<and> timeouts st' = timeouts st"
  by (auto simp: WebSocket_send_def states_update_socket_same timeouts_update_socket
      split: option.splits ready_state.splits)

lemma ws_send_chains:
  "ws_send m st = Inr st' \<Longrightarrow> states st' = states st \<and> timeouts st' = timeouts st"
  by (auto simp: ws_send_def split: option.splits dest: WebSocket_send_chains)

lemma onclose_chains: "states (onclose st) = states st \<and> timeouts (onclose st) = timeouts st @ [1000]"
  by (simp add: onclose_def states_def)

lemma onopen_chains: "states (onopen st) = states st \<and> timeouts (onopen st) = timeouts st"
  by (auto simp: onopen_def states_def split: sum.splits dest!: ws_send_chains)

lemma colorSel_change_chains:
  "states (colorSel_change st) = states st \<and> timeouts (colorSel_change st) = timeouts st"
  by (auto simp: colorSel_change_def states_def split: sum.splits dest!: ws_send_chains)

lemma confRange_input_chains:
  "states (confRange_input st) = states st \<and> timeouts (confRange_input st) = timeouts st"
  by (auto simp: confRange_input_def Let_def states_def split: sum.splits dest!: ws_send_chains)

lemma toBlob_callback_resume_chains:
  "states (toBlob_callback_resume buf st) = states st
   \<and> timeouts (toBlob_callback_resume buf st) = timeouts st"
  by (auto simp: toBlob_callback_resume_def states_def split: sum.splits dest!: ws_send_chains)

lemma step_reconnect_chains:
  "reconnect_chains (step st ev) =
     reconnect_chains st + (if ev = StartBtn_click \<and> \<not> ws_is_open st then 1 else 0)"
proof (cases ev)
  case StartBtn_click
  then show ?thesis
    by (simp add: reconnect_chains_def states_def startBtn_click_def startCamera_def connectWS_def)
next
  case (Socket_open i)
  show ?thesis
  proof (cases "ready_of st i = Some CONNECTING")
    case True
    then have i: "i < length (states st)" and c: "states st ! i = CONNECTING"
      by (auto simp: ready_of_def states_def split: if_splits)
    have "length (filter (\<lambda>r. r \<noteq> CLOSED) ((states st)[i := OPEN]))
        = length (filter (\<lambda>r. r \<noteq> CLOSED) (states st))"
      by (rule filter_update_same [OF i]) (simp add: c)
    with True i show ?thesis
      by (simp add: Socket_open reconnect_chains_def onopen_chains states_update_socket
          timeouts_update_socket)
  next
    case False
    then show ?thesis by (simp add: Socket_open)
  qed
next
  case (Socket_closing i)
  show ?thesis
  proof (cases "ready_of st i = Some OPEN")
    case True
    then have i: "i < length (states st)" and c: "states st ! i = OPEN"
      by (auto simp: ready_of_def states_def split: if_splits)
    have "length (filter (\<lambda>r. r \<noteq> CLOSED) ((states st)[i := CLOSING]))
        = length (filter (\<lambda>r. r \<noteq> CLOSED) (states st))"
      by (rule filter_update_same [OF i]) (simp add: c)
    with True i show ?thesis
      by (simp add: Socket_closing reconnect_chains_def states_update_socket
          timeouts_update_socket)
  next
    case False
    then show ?thesis by (simp add: Socket_closing)
  qed
next
  case (Socket_close i)
  show ?thesis
  proof (cases "ready_of st i")
    case None
    then show ?thesis by (simp add: Socket_close)
  next
    case (Some r)
    then have i: "i < length (states st)" and c: "states st ! i = r"
      by (auto simp: ready_of_def states_def split: if_splits)
    show ?thesis
    proof (cases "r = CLOSED")
      case True
      with Some show ?thesis by (simp add: Socket_close)
    next
      case False
      have cnt: "Suc (length (filter (\<lambda>r. r \<noteq> CLOSED) ((states st)[i := CLOSED])))
          = length (filter (\<lambda>r. r \<noteq> CLOSED) (states st))"
        by (rule filter_update_drop [OF i]) (simp_all add: c False)
      have eq: "step st ev = onclose (update_socket i (\<lambda>s. s\<lparr>readyState := CLOSED\<rparr>) st)"
        using Some False by (cases r) (simp_all add: Socket_close)
      have "ev \<noteq> StartBtn_click" by (simp add: Socket_close)
      then show ?thesis
        unfolding eq using i cnt
        by (simp add: reconnect_chains_def onclose_chains states_update_socket
            timeouts_update_socket)
    qed
  qed
next
  case Timeout
  then show ?thesis
    by (simp add: reconnect_chains_def states_def connectWS_def split: list.splits)
next
  case Buffer_read
  then show ?thesis
    by (auto simp: reconnect_chains_def toBlob_callback_resume_chains
        split: list.splits) (simp_all add: states_def)
next
  case (ColorSel_change v)
  then show ?thesis
    by (simp add: reconnect_chains_def colorSel_change_chains) (simp add: states_def)
next
  case (ConfRange_input v)
  then show ?thesis
    by (simp add: reconnect_chains_def confRange_input_chains) (simp add: states_def)
qed (auto simp: reconnect_chains_def states_def startCamera_resume_def onmessage_def
    captureLoop_def toBlob_callback_def submitImage_click_def submitVideo_click_def
    submitImage_settle_def submitVideo_settle_def alert_def Let_def
    split: message.splits list.splits option.splits settled.splits)

lemma clicks_add_chains_from:
  "\<not> ws_is_open st \<Longrightarrow>
     reconnect_chains (run st (replicate n StartBtn_click)) = reconnect_chains st + n"
proof (induction n arbitrary: st)
  case 0
  then show ?case by (simp add: run_def)
next
  case (Suc n)
  have "\<not> ws_is_open (step st StartBtn_click)"
    using Suc.prems
    by (simp add: startBtn_click_def startCamera_def connectWS_def ws_is_open_def ready_of_def)
  from Suc.IH [OF this]
  have "reconnect_chains (run st (replicate (Suc n) StartBtn_click))
      = reconnect_chains (step st StartBtn_click) + n"
    by (simp add: run_Cons)
  also have "reconnect_chains (step st StartBtn_click) = reconnect_chains st + 1"
    using Suc.prems by (simp only: step_reconnect_chains) simp
  finally show ?case by simp
qed

lemma clicks_add_chains:
  "reconnect_chains (run (loaded d) (replicate n StartBtn_click)) = n"
proof -
  have "\<not> ws_is_open (loaded d)" by (simp add: ws_is_open_def loaded_def)
  from clicks_add_chains_from [OF this, of n] show ?thesis
    by (simp add: reconnect_chains_def states_def loaded_def)
qed


text \<open>
  C4 says that reconnects are never duplicated, clicks on the start control included.
  Two clicks before the handshake make two sockets; when both close, two reconnects
  are scheduled, and they make two sockets again.
\<close>

theorem startBtn_click_duplicates_reconnects:
  "states (run (loaded d) [StartBtn_click, StartBtn_click]) = [CONNECTING, CONNECTING]
   \<and> timeouts (run (loaded d) [StartBtn_click, StartBtn_click, Socket_close 0, Socket_close 1])
     = [1000, 1000]
   \<and> states (run (loaded d)
        [StartBtn_click, StartBtn_click, Socket_close 0, Socket_close 1, Timeout, Timeout])
     = [CLOSED, CLOSED, CONNECTING, CONNECTING]"
  by (simp add: handler_defs states_def)

text \<open>A socket is handed no data before its handshake: \<^verbatim>\<open>send\<close> throws on it.\<close>

lemma list_all_update:
  "list_all P xs \<Longrightarrow> (i < length xs \<Longrightarrow> P y) \<Longrightarrow> list_all P (xs[i := y])"
proof (induction xs arbitrary: i)
  case Nil
  then show ?case by simp
next
  case (Cons x xs)
  then show ?case by (cases i) auto
qed

lemma update_socket_silent:
  "connecting_silent st \<Longrightarrow>
   (i < length (sockets st) \<Longrightarrow> readyState (f (sockets st ! i)) \<noteq> CONNECTING) \<Longrightarrow>
     connecting_silent (update_socket i f st)"
  by (auto simp: connecting_silent_def update_socket_def intro!: list_all_update)


lemma WebSocket_send_silent:
  assumes "connecting_silent st" and "WebSocket_send i m st = Inr st'"
  shows "connecting_silent st'"
proof (cases "ready_of st i")
  case None
  with assms(2) show ?thesis by (simp add: WebSocket_send_def)
next
  case (Some r)
  then have r: "i < length (sockets st)" "readyState (sockets st ! i) = r"
    by (auto simp: ready_of_def split: if_splits)
  show ?thesis
  proof (cases r)
    case CONNECTING
    with Some assms(2) show ?thesis by (simp add: WebSocket_send_def)
  next
    case OPEN
    with Some assms(2)
    have "st' = update_socket i (\<lambda>s. s\<lparr>transmitted := transmitted s @ [m]\<rparr>) st"
      by (simp add: WebSocket_send_def)
    then show ?thesis
      using update_socket_silent [OF assms(1), of i "\<lambda>s. s\<lparr>transmitted := transmitted s @ [m]\<rparr>"]
        r OPEN by simp
  next
    case CLOSING
    with Some assms(2)
    have "st' = update_socket i (\<lambda>s. s\<lparr>discarded := discarded s @ [m]\<rparr>) st"
      by (simp add: WebSocket_send_def)
    then show ?thesis
      using update_socket_silent [OF assms(1), of i "\<lambda>s. s\<lparr>discarded := discarded s @ [m]\<rparr>"]
        r CLOSING by simp
  next
    case CLOSED
    with Some assms(2)
    have "st' = update_socket i (\<lambda>s. s\<lparr>discarded := discarded s @ [m]\<rparr>) st"
      by (simp add: WebSocket_send_def)
    then show ?thesis
      using update_socket_silent [OF assms(1), of i "\<lambda>s. s\<lparr>discarded := discarded s @ [m]\<rparr>"]
        r CLOSED by simp
  qed
qed

lemma ws_send_silent:
  "connecting_silent st \<Longrightarrow> ws_send m st = Inr st' \<Longrightarrow> connecting_silent st'"
  by (auto simp: ws_send_def split: option.splits dest: WebSocket_send_silent)

lemma connecting_silent_fields [simp]:
  "connecting_silent (st\<lparr>uncaught := u\<rparr>) = connecting_silent st"
  "connecting_silent (st\<lparr>sending := b\<rparr>) = connecting_silent st"
  "connecting_silent (st\<lparr>reading := r\<rparr>) = connecting_silent st"
  "connecting_silent (st\<lparr>dom := d\<rparr>) = connecting_silent st"
  "connecting_silent (st\<lparr>timeouts := t\<rparr>) = connecting_silent st"
  by (simp_all add: connecting_silent_def)

lemma onopen_silent: "connecting_silent st \<Longrightarrow> connecting_silent (onopen st)"
  by (auto simp: onopen_def split: sum.splits dest: ws_send_silent)

lemma colorSel_change_silent: "connecting_silent st \<Longrightarrow> connecting_silent (colorSel_change st)"
  by (auto simp: colorSel_change_def split: sum.splits dest: ws_send_silent)

lemma confRange_input_silent: "connecting_silent st \<Longrightarrow> connecting_silent (confRange_input st)"
  by (auto simp: confRange_input_def Let_def split: sum.splits
      dest: ws_send_silent [rotated])

lemma toBlob_callback_resume_silent:
  "connecting_silent st \<Longrightarrow> connecting_silent (toBlob_callback_resume buf st)"
  by (auto simp: toBlob_callback_resume_def split: sum.splits dest: ws_send_silent)

lemma step_connecting_silent: "connecting_silent st \<Longrightarrow> connecting_silent (step st ev)"
proof (cases ev)
  case StartBtn_click
  assume "connecting_silent st"
  then show ?thesis
    by (simp add: StartBtn_click connecting_silent_def startBtn_click_def startCamera_def
        connectWS_def)
next
  case (Socket_open i)
  assume "connecting_silent st"
  then show ?thesis
    by (auto simp: Socket_open intro!: onopen_silent update_socket_silent)
next
  case (Socket_closing i)
  assume "connecting_silent st"
  then show ?thesis
    by (auto simp: Socket_closing intro!: update_socket_silent)
next
  case (Socket_close i)
  assume a: "connecting_silent st"
  have "connecting_silent (onclose (update_socket i (\<lambda>s. s\<lparr>readyState := CLOSED\<rparr>) st))"
    using update_socket_silent [OF a, of i "\<lambda>s. s\<lparr>readyState := CLOSED\<rparr>"]
    by (simp add: onclose_def)
  with a show ?thesis
    by (auto simp: Socket_close split: option.splits ready_state.splits)
next
  case Timeout
  assume "connecting_silent st"
  then show ?thesis
    by (auto simp: Timeout connecting_silent_def connectWS_def split: list.splits)
next
  case Buffer_read
  assume a: "connecting_silent st"
  show ?thesis
  proof (cases "reading st")
    case Nil
    with a show ?thesis by (simp add: Buffer_read)
  next
    case (Cons buf rest)
    from a show ?thesis
      by (simp add: Buffer_read Cons toBlob_callback_resume_silent)
  qed
next
  case (ColorSel_change v)
  assume a: "connecting_silent st"
  from a show ?thesis by (simp add: ColorSel_change colorSel_change_silent)
next
  case (ConfRange_input v)
  assume a: "connecting_silent st"
  from a show ?thesis by (simp add: ConfRange_input confRange_input_silent)
qed (auto simp: connecting_silent_def startCamera_resume_def onmessage_def captureLoop_def
    toBlob_callback_def submitImage_click_def submitVideo_click_def submitImage_settle_def
    submitVideo_settle_def alert_def Let_def
    split: message.splits list.splits option.splits settled.splits)

lemma run_connecting_silent: "connecting_silent (run (loaded d) evs)"
proof -
  have "connecting_silent st \<Longrightarrow> connecting_silent (run st evs)" for st
    unfolding run_def by (induction evs arbitrary: st) (simp_all add: step_connecting_silent)
  moreover have "connecting_silent (loaded d)" by (simp add: connecting_silent_def loaded_def)
  ultimately show ?thesis .
qed


text \<open>When the socket that completes its handshake is the one \<open>ws\<close> names, the two
  settings are queued on it at once, in this order, and they are the first data on it.\<close>

lemma socket_open_current:
  assumes "ws st = Some i" and "ready_of st i = Some CONNECTING"
  shows "step st (Socket_open i) =
     update_socket i (\<lambda>s. s\<lparr>readyState := OPEN,
        transmitted := transmitted s @ [Text (''color='' @ colorSel_value (dom st)),
                                       Text (''conf='' @ confRange_value (dom st))]\<rparr>) st"
  using assms
  by (auto simp: onopen_def ws_send_def WebSocket_send_def ready_of_def update_socket_def
      split: if_splits)

lemma settings_first_on_current_socket:
  assumes "ws (run (loaded d) evs) = Some i"
    and "ready_of (run (loaded d) evs) i = Some CONNECTING"
  shows "transmitted (sockets (step (run (loaded d) evs) (Socket_open i)) ! i) =
     [Text (''color='' @ colorSel_value (dom (run (loaded d) evs))),
      Text (''conf='' @ confRange_value (dom (run (loaded d) evs)))]"
proof -
  let ?st = "run (loaded d) evs"
  from assms(2) have i: "i < length (sockets ?st)"
    and c: "readyState (sockets ?st ! i) = CONNECTING"
    by (auto simp: ready_of_def split: if_splits)
  from run_connecting_silent [of d evs] i c have "transmitted (sockets ?st ! i) = []"
    by (auto simp: connecting_silent_def list_all_length)
  with i show ?thesis
    unfolding socket_open_current [OF assms] by (simp add: update_socket_def)
qed

text \<open>
  C6 says that every handshake is followed by the two settings messages on that
  connection. \<^verbatim>\<open>onopen\<close> sends on \<open>ws\<close>, not on the socket that opened: after two
  clicks \<open>ws\<close> names socket 1, and when socket 0 opens the first \<^verbatim>\<open>ws.send\<close>
  throws on the connecting socket 1. Socket 0 is open and has been sent nothing.
\<close>

theorem onopen_of_replaced_socket_sends_nothing:
  "states (run (loaded d) [StartBtn_click, StartBtn_click, Socket_open 0]) = [OPEN, CONNECTING]
   \<and> map transmitted (sockets (run (loaded d) [StartBtn_click, StartBtn_click, Socket_open 0]))
     = [[], []]
   \<and> uncaught (run (loaded d) [StartBtn_click, StartBtn_click, Socket_open 0])
     = [InvalidStateError]"
  by (simp add: handler_defs states_def)

subsection \<open>Settings\<close>

text \<open>
  C7. When the color selector or the confidence slider changes while the socket
  \<open>ws\<close> is open, the handler queues exactly one message on that socket,
  \<^verbatim>\<open>color=<value>\<close> or \<^verbatim>\<open>conf=<value>\<close> with the new value, within the same
  step. Nothing else of the page changes but the element itself (and the label that
  shows the confidence): the flag and the pending frame operations are neither read
  nor written, and nothing is left pending.
\<close>

theorem settings_change_sends_one_message:
  assumes "ws st = Some i" and "ready_of st i = Some OPEN"
  shows "step st (ColorSel_change v) =
           update_socket i (\<lambda>s. s\<lparr>transmitted := transmitted s @ [Text (''color='' @ v)]\<rparr>)
             (st\<lparr>dom := (dom st)\<lparr>colorSel_value := v\<rparr>\<rparr>)
       \<and> step st (ConfRange_input v) =
           update_socket i (\<lambda>s. s\<lparr>transmitted := transmitted s @ [Text (''conf='' @ v)]\<rparr>)
             (st\<lparr>dom := (dom st)\<lparr>confRange_value := v, confVal_textContent := v\<rparr>\<rparr>)"
  using assms
  by (auto simp: colorSel_change_def confRange_input_def ws_is_open_def ws_send_def
      WebSocket_send_def ready_of_def update_socket_def Let_def split: if_splits)

theorem settings_change_sends_one_message_witness:
  "ws (run (loaded example_panel) [StartBtn_click, Socket_open 0]) = Some 0
   \<and> ready_of (run (loaded example_panel) [StartBtn_click, Socket_open 0]) 0 = Some OPEN
   \<and> map transmitted (sockets (run (loaded example_panel)
        [StartBtn_click, Socket_open 0, ColorSel_change ''blue'']))
      = [[Text ''color=red'', Text ''conf=0.5'', Text ''color=blue'']]
   \<and> map transmitted (sockets (run (loaded example_panel)
        [StartBtn_click, Socket_open 0, ConfRange_input ''0.9'']))
      = [[Text ''color=red'', Text ''conf=0.5'', Text ''conf=0.9'']]"
proof -
  let ?st = "run (loaded example_panel) [StartBtn_click, Socket_open 0]"
  have a: "ws ?st = Some 0" and b: "ready_of ?st 0 = Some OPEN"
    by (simp_all add: handler_defs)
  have c: "run (loaded example_panel) [StartBtn_click, Socket_open 0, ColorSel_change ''blue'']
      = step ?st (ColorSel_change ''blue'')"
    and d: "run (loaded example_panel) [StartBtn_click, Socket_open 0, ConfRange_input ''0.9'']
      = step ?st (ConfRange_input ''0.9'')"
    by (simp_all add: run_def)
  from settings_change_sends_one_message [OF a b] a b show ?thesis
    unfolding c d by (simp add: handler_defs example_panel_def)
qed

subsection \<open>The upload flows\<close>

text \<open>
  C9. In both upload flows a click with a file chosen disables the control and labels
  it \<^verbatim>\<open>Processing...\<close> while the request is pending, and however the request ends
  (a body, a response that is not ok, a rejected \<^verbatim>\<open>fetch\<close> or body read) the
  control is enabled again and labelled \<^verbatim>\<open>Submit Image\<close> or \<^verbatim>\<open>Submit Video\<close>:
  a control that was enabled and carried that label before the click is, after the
  request has ended, exactly as it was.
\<close>

theorem submit_controls_restored:
  "(imageInput_file (dom st) = Some f \<and> \<not> disabled (submitImage (dom st)) \<longrightarrow>
      submitImage (dom (step st SubmitImage_click))
        = \<lparr>disabled = True, textContent = processing_label\<rparr>
      \<and> image_requests (step st SubmitImage_click) \<noteq> [])
   \<and> (image_requests st \<noteq> [] \<longrightarrow>
      submitImage (dom (step st (Image_settled outcome)))
        = \<lparr>disabled = False, textContent = ''Submit Image''\<rparr>)
   \<and> (imageInput_file (dom st) = Some f \<and> image_requests st = []
       \<and> submitImage (dom st) = \<lparr>disabled = False, textContent = ''Submit Image''\<rparr> \<longrightarrow>
      submitImage (dom (run st [SubmitImage_click, Image_settled outcome]))
        = submitImage (dom st))
   \<and> (videoFile_file (dom st) = Some f' \<and> \<not> disabled (submitVideo (dom st)) \<longrightarrow>
      submitVideo (dom (step st SubmitVideo_click))
        = \<lparr>disabled = True, textContent = processing_label\<rparr>
      \<and> video_requests (step st SubmitVideo_click) \<noteq> [])
   \<and> (video_requests st \<noteq> [] \<longrightarrow>
      submitVideo (dom (step st (Video_settled outcome')))
        = \<lparr>disabled = False, textContent = ''Submit Video''\<rparr>)
   \<and> (videoFile_file (dom st) = Some f' \<and> video_requests st = []
       \<and> submitVideo (dom st) = \<lparr>disabled = False, textContent = ''Submit Video''\<rparr> \<longrightarrow>
      submitVideo (dom (run st [SubmitVideo_click, Video_settled outcome']))
        = submitVideo (dom st))"
  by (auto simp: run_def submitImage_settle_def submitVideo_settle_def submitImage_click_def
      submitVideo_click_def alert_def Let_def split: list.splits settled.splits)

theorem submit_controls_restored_witness:
  "imageInput_file (dom (run (loaded example_panel)
       [ImageInput_change (Some ''cat.png''), VideoFile_change (Some ''clip.mp4'')]))
     = Some ''cat.png''
   \<and> videoFile_file (dom (run (loaded example_panel)
       [ImageInput_change (Some ''cat.png''), VideoFile_change (Some ''clip.mp4'')]))
     = Some ''clip.mp4''
   \<and> submitImage (dom (run (loaded example_panel)
       [ImageInput_change (Some ''cat.png''), VideoFile_change (Some ''clip.mp4''),
        SubmitImage_click]))
     = \<lparr>disabled = True, textContent = processing_label\<rparr>
   \<and> submitImage (dom (run (loaded example_panel)
       [ImageInput_change (Some ''cat.png''), VideoFile_change (Some ''clip.mp4''),
        SubmitImage_click, Image_settled Not_ok]))
     = \<lparr>disabled = False, textContent = ''Submit Image''\<rparr>
   \<and> submitVideo (dom (run (loaded example_panel)
       [ImageInput_change (Some ''cat.png''), VideoFile_change (Some ''clip.mp4''),
        SubmitVideo_click]))
     = \<lparr>disabled = True, textContent = processing_label\<rparr>
   \<and> submitVideo (dom (run (loaded example_panel)
       [ImageInput_change (Some ''cat.png''), VideoFile_change (Some ''clip.mp4''),
        SubmitVideo_click, Video_settled (Rejected ''Failed to fetch'')]))
     = \<lparr>disabled = False, textContent = ''Submit Video''\<rparr>"
  using submit_controls_restored
    [of "run (loaded example_panel)
          [ImageInput_change (Some ''cat.png''), VideoFile_change (Some ''clip.mp4'')]"
        "''cat.png''" Not_ok "''clip.mp4''" "Rejected ''Failed to fetch''"]
  by (simp add: run_def loaded_def example_panel_def submitImage_click_def
      submitVideo_click_def submitImage_settle_def submitVideo_settle_def alert_def)

end
